theory Spec2Isabelle
  imports Complex_Main
begin

section \<open>Python values used by the script generator\<close>

text \<open>
  The technique parameters (potentials, scan rate, step size, times) are Python numbers.
  They are modelled as the real numbers they denote, with exact arithmetic: the rounding
  of a floating-point product to the nearest double and the special values (infinities,
  NaN) are outside this model. Integers obtained with \<^verbatim>\<open>int(...)\<close> and the sweep
  count are \<open>int\<close>; program text is \<open>string\<close>.
\<close>

text \<open>\<^verbatim>\<open>int(x)\<close> on a float truncates toward zero.\<close>

definition py_int :: "real \<Rightarrow> int" where
  "py_int x = (if x < 0 then \<lceil>x\<rceil> else \<lfloor>x\<rfloor>)"

text \<open>\<^verbatim>\<open>str(n)\<close> on an integer: the decimal digits, with a leading minus sign.\<close>

definition digit_char :: "nat \<Rightarrow> char" where
  "digit_char n = ''0123456789'' ! n"

fun str_nat :: "nat \<Rightarrow> string" where
  "str_nat n = (if n < 10 then [digit_char n] else str_nat (n div 10) @ [digit_char (n mod 10)])"

declare str_nat.simps [simp del]

definition str_int :: "int \<Rightarrow> string" where
  "str_int i = (if i < 0 then CHR ''-'' # str_nat (nat (- i)) else str_nat (nat i))"

text \<open>The tab character of the loop bodies (\<^verbatim>\<open>\t\<close>); the line feed is \<open>\<newline>\<close>.\<close>

abbreviation TAB :: char where
  "TAB \<equiv> CHR 0x09"

text \<open>
  Exceptions are values. \<open>LimitsException label low high units val\<close> is the
  \<^verbatim>\<open>Exception\<close> raised by \<^verbatim>\<open>Info.limits\<close>; its message is assembled from exactly these
  five values (\<^verbatim>\<open>label + ' should be between ' + str(low) + ...\<close>). \<open>PyException msg\<close>
  is an \<^verbatim>\<open>Exception\<close> with the given message.
\<close>

datatype error =
    LimitsException string real real string real
  | PyException string
  | NameError string
  | AttributeError string
  | TypeError

text \<open>Standard output is the list of the lines printed so far, one entry per \<^verbatim>\<open>print\<close> call.\<close>

type_synonym stdout = "string list"

section \<open>emstatpico: the millivolt / millisecond script dialect\<close>

subsection \<open>Info\<close>

record Info =
  tech :: "string list"
  E_min :: real
  E_max :: real

definition Info_init :: Info where
  "Info_init = \<lparr>tech = [''CV'', ''CA'', ''LSV'', ''OCP''], E_min = - 1.7, E_max = 2\<rparr>"

text \<open>\<^verbatim>\<open>Info.limits(self, val, low, high, label, units)\<close>; \<^verbatim>\<open>self\<close> is not used.\<close>

definition limits :: "real \<Rightarrow> real \<Rightarrow> real \<Rightarrow> string \<Rightarrow> string \<Rightarrow> error + unit" where
  "limits val low high label units =
     (if val < low \<or> val > high then Inl (LimitsException label low high units val)
      else Inr ())"

subsection \<open>CV\<close>

text \<open>
  In the source, the line \<^verbatim>\<open>def validate\<close> of this class is indented by five columns instead
  of four; it is read as the method of \<^verbatim>\<open>CV\<close> that \<^verbatim>\<open>self.validate(...)\<close> calls.
\<close>

text \<open>
  The attributes of a \<^verbatim>\<open>CV\<close> object. \<^verbatim>\<open>ini\<close>, \<^verbatim>\<open>pre_body\<close> and \<^verbatim>\<open>body\<close> are assigned only
  after validation: \<open>None\<close> is an attribute that does not exist yet.
\<close>

record CV =
  CV_Eini :: int
  CV_Ev1 :: int
  CV_Ev2 :: int
  CV_Efin :: int
  CV_sr :: int
  CV_dE :: int
  CV_nSweeps :: int
  CV_text :: string
  CV_ini :: "string option"
  CV_pre_body :: "string option"
  CV_body :: "string option"

definition CV_validate ::
  "real \<Rightarrow> real \<Rightarrow> real \<Rightarrow> real \<Rightarrow> real \<Rightarrow> real \<Rightarrow> int \<Rightarrow> real \<Rightarrow> stdout \<Rightarrow> error + stdout" where
  "CV_validate Eini Ev1 Ev2 Efin sr dE nSweeps sens out =
     (let info = Info_init in
      case limits Eini (E_min info) (E_max info) ''Eini'' ''V'' of Inl e \<Rightarrow> Inl e | Inr _ \<Rightarrow>
     (case limits Ev1 (E_min info) (E_max info) ''Ev1'' ''V'' of Inl e \<Rightarrow> Inl e | Inr _ \<Rightarrow>
     (case limits Ev2 (E_min info) (E_max info) ''Ev2'' ''V'' of Inl e \<Rightarrow> Inl e | Inr _ \<Rightarrow>
     (case limits Efin (E_min info) (E_max info) ''Efin'' ''V'' of Inl e \<Rightarrow> Inl e | Inr _ \<Rightarrow>
      Inr (out @ [''All the parameters are valid''])))))"

text \<open>
  \<^verbatim>\<open>CV.__init__\<close>. An exception leaves the constructor with the object as it is at that
  moment: \<open>Inl (e, self)\<close>. A normal return gives the object and the standard output.
\<close>

definition CV_init ::
  "real \<Rightarrow> real \<Rightarrow> real \<Rightarrow> real \<Rightarrow> real \<Rightarrow> real \<Rightarrow> int \<Rightarrow> real \<Rightarrow> string \<Rightarrow> string \<Rightarrow> string \<Rightarrow>
   string option \<Rightarrow> int \<Rightarrow> real \<Rightarrow> stdout \<Rightarrow> (error \<times> CV) + (CV \<times> stdout)" where
  "CV_init Eini Ev1 Ev2 Efin sr dE nSweeps sens folder fileName header path_lib qt resistance out =
     (let self = \<lparr>CV_Eini = py_int (Eini * 1000),
                  CV_Ev1 = py_int (Ev1 * 1000),
                  CV_Ev2 = py_int (Ev2 * 1000),
                  CV_Efin = py_int (Efin * 1000),
                  CV_sr = py_int (sr * 1000),
                  CV_dE = py_int (dE * 1000),
                  CV_nSweeps = nSweeps,
                  CV_text = '''',
                  CV_ini = None, CV_pre_body = None, CV_body = None\<rparr>
      in case CV_validate Eini Ev1 Ev2 Efin sr dE nSweeps sens out of
           Inl e \<Rightarrow> Inl (e, self)
         | Inr out' \<Rightarrow>
            (let ini = ''e\<newline>var c\<newline>var p\<newline>var a\<newline>'';
                 pre_body = ''set_pgstat_mode 4\<newline>set_autoranging ba 100n 5m'' @
                            ''\<newline>set_e '' @ str_int (CV_Eini self) @ ''m\<newline>cell_on\<newline>wait 2\<newline>timer_start'';
                 body = ''\<newline>meas_loop_cv p c '' @ str_int (CV_Eini self) @ ''m '' @
                        str_int (CV_Ev1 self) @ ''m '' @
                        str_int (CV_Ev2 self) @ ''m '' @ str_int (CV_dE self) @ ''m '' @ str_int (CV_sr self) @
                        ''m nscans('' @ str_int (CV_nSweeps self - 1) @ '')\<newline>'' @ TAB # ''pck_start\<newline>'' @ TAB # ''timer_get a'' @
                        ''\<newline>'' @ TAB # ''pck_add a\<newline>'' @ TAB # ''pck_add p\<newline>'' @ TAB # ''pck_add c\<newline>'' @ TAB # ''pck_end\<newline>endloop\<newline>'' @
                        ''on_finished:\<newline>cell_off\<newline>\<newline>''
             in Inr (self\<lparr>CV_ini := Some ini, CV_pre_body := Some pre_body, CV_body := Some body,
                          CV_text := ini @ pre_body @ body\<rparr>, out')))"

text \<open>
  \<^verbatim>\<open>CV.bipot(self, E, sens)\<close> mutates the object; the result is the object after the call,
  or the exception with the object as the exception leaves it.
\<close>

definition CV_bipot :: "CV \<Rightarrow> real \<Rightarrow> real \<Rightarrow> (error \<times> CV) + CV" where
  "CV_bipot self E sens =
     (let info = Info_init in
      case limits E (E_min info) (E_max info) ''E2'' ''V'' of
        Inl e \<Rightarrow> Inl (e, self)
      | Inr _ \<Rightarrow>
         (let E_mV = py_int (E * 1000);
              pre_body = ''var b\<newline>set_pgstat_chan 1'' @
                         ''\<newline>set_pgstat_mode 5'' @
                         ''\<newline>set_poly_we_mode 0'' @
                         ''\<newline>set_e '' @ str_int E_mV @ ''m\<newline>set_autoranging ba 100n 5m'' @
                         ''\<newline>set_pgstat_chan 0\<newline>set_pgstat_mode 2'' @
                         ''\<newline>set_autoranging ba 100n 5m\<newline>set_e '' @ str_int (CV_Eini self) @
                         ''m\<newline>timer_start\<newline>cell_on'';
              body = ''\<newline>meas_loop_cv p c '' @ str_int (CV_Eini self) @ ''m '' @
                     str_int (CV_Ev1 self) @ ''m '' @
                     str_int (CV_Ev2 self) @ ''m '' @ str_int (CV_dE self) @ ''m '' @ str_int (CV_sr self) @
                     ''m nscans('' @ str_int (CV_nSweeps self) @ '') poly_we(1 b)\<newline>'' @ TAB #
                     ''pck_start\<newline>'' @ TAB # ''timer_get a'' @
                     ''\<newline>'' @ TAB # ''pck_add a\<newline>'' @ TAB # ''pck_add p\<newline>'' @ TAB # ''pck_add c\<newline>'' @ TAB # ''pck_add b\<newline>'' @ [TAB] @
                     ''pck_end\<newline>endloop\<newline>on_finished:\<newline>cell_off\<newline>\<newline>'';
              self' = self\<lparr>CV_pre_body := Some pre_body, CV_body := Some body\<rparr>
          in case CV_ini self' of
               None \<Rightarrow> Inl (AttributeError ''ini'', self')
             | Some ini \<Rightarrow> Inr (self'\<lparr>CV_text := ini @ pre_body @ body\<rparr>)))"

subsection \<open>CA\<close>

record CA =
  CA_Estep :: int
  CA_dt :: int
  CA_ttot :: int
  CA_text :: string
  CA_ini :: "string option"
  CA_pre_body :: "string option"
  CA_body :: "string option"



definition CA_bipot :: "CA \<Rightarrow> real \<Rightarrow> real \<Rightarrow> (error \<times> CA) + CA" where
  "CA_bipot self E sens =
     (let info = Info_init in
      case limits E (E_min info) (E_max info) ''E2'' ''V'' of
        Inl e \<Rightarrow> Inl (e, self)
      | Inr _ \<Rightarrow>
         (let E_mV = py_int (E * 1000);
              pre_body = ''var b\<newline>set_pgstat_chan 1'' @
                         ''\<newline>set_pgstat_mode 5'' @
                         ''\<newline>set_poly_we_mode 0'' @
                         ''\<newline>set_e '' @ str_int E_mV @ ''m\<newline>set_autoranging ba 100n 5m'' @
                         ''\<newline>set_pgstat_chan 0\<newline>set_pgstat_mode 2'' @
                         ''\<newline>set_autoranging ba 100n 5m\<newline>set_e '' @ str_int (CA_Estep self) @
                         ''m\<newline>timer_start\<newline>cell_on'';
              body = ''\<newline>meas_loop_ca p c '' @ str_int (CA_Estep self) @ ''m '' @
                     str_int (CA_dt self) @ ''m '' @
                     str_int (CA_ttot self) @ ''m poly_we(1 b)\<newline>'' @ TAB #
                     ''pck_start\<newline>'' @ TAB # ''timer_get a'' @
                     ''\<newline>'' @ TAB # ''pck_add a\<newline>'' @ TAB # ''pck_add p\<newline>'' @ TAB # ''pck_add c\<newline>'' @ TAB # ''pck_add b\<newline>'' @ [TAB] @
                     ''pck_end\<newline>endloop\<newline>on_finished:\<newline>cell_off\<newline>\<newline>'';
              self' = self\<lparr>CA_pre_body := Some pre_body, CA_body := Some body\<rparr>
          in case CA_ini self' of
               None \<Rightarrow> Inl (AttributeError ''ini'', self')
             | Some ini \<Rightarrow> Inr (self'\<lparr>CA_text := ini @ pre_body @ body\<rparr>)))"

subsection \<open>LSV\<close>

record LSV =
  LSV_Eini :: int
  LSV_Efin :: int
  LSV_sr :: int
  LSV_dE :: int
  LSV_text :: string
  LSV_ini :: "string option"
  LSV_pre_body :: "string option"
  LSV_body :: "string option"



text \<open>
  \<^verbatim>\<open>LSV.bipot\<close> uses the name \<^verbatim>\<open>info\<close> without assigning it (\<^verbatim>\<open>CV.bipot\<close> and \<^verbatim>\<open>CA.bipot\<close>
  start with \<^verbatim>\<open>info = Info()\<close>). The name is therefore not local, and Python looks it up
  among the module's global names, where the module binds only its six classes. A name
  that is not found raises \<^verbatim>\<open>NameError\<close>; a class object has the method \<^verbatim>\<open>limits\<close> only if
  it is \<^verbatim>\<open>Info\<close>, and never the instance attribute \<^verbatim>\<open>E_min\<close>; an \<^verbatim>\<open>Info\<close> instance would let
  the method run as its siblings do.
\<close>

datatype global_value = ClassObject string | InfoInstance Info

definition module_globals :: "(string \<times> global_value) list" where
  "module_globals =
     [(''Test'', ClassObject ''Test''), (''Info'', ClassObject ''Info''), (''CV'', ClassObject ''CV''),
      (''CA'', ClassObject ''CA''), (''LSV'', ClassObject ''LSV''), (''OCP'', ClassObject ''OCP'')]"

definition LSV_bipot :: "LSV \<Rightarrow> real \<Rightarrow> real \<Rightarrow> (error \<times> LSV) + LSV" where
  "LSV_bipot self E sens =
     (case map_of module_globals ''info'' of
        None \<Rightarrow> Inl (NameError ''info'', self)
      | Some (ClassObject c) \<Rightarrow>
          Inl (AttributeError (if c = ''Info'' then ''E_min'' else ''limits''), self)
      | Some (InfoInstance info) \<Rightarrow>
         (case limits E (E_min info) (E_max info) ''E2'' ''V'' of
            Inl e \<Rightarrow> Inl (e, self)
          | Inr _ \<Rightarrow>
             (let E_mV = py_int (E * 1000);
                  pre_body = ''var b\<newline>set_pgstat_chan 1'' @
                             ''\<newline>set_pgstat_mode 5'' @
                             ''\<newline>set_poly_we_mode 0'' @
                             ''\<newline>set_e '' @ str_int E_mV @ ''m\<newline>set_autoranging ba 100n 5m'' @
                             ''\<newline>set_pgstat_chan 0\<newline>set_pgstat_mode 2'' @
                             ''\<newline>set_autoranging ba 100n 5m\<newline>set_e '' @ str_int (LSV_Eini self) @
                             ''m\<newline>timer_start\<newline>cell_on'';
                  body = ''\<newline>meas_loop_lsv p c '' @ str_int (LSV_Eini self) @ ''m '' @
                         str_int (LSV_Efin self) @ ''m '' @
                         str_int (LSV_dE self) @ ''m '' @ str_int (LSV_sr self) @
                         ''m poly_we(1 b)\<newline>'' @ TAB #
                         ''pck_start\<newline>'' @ TAB # ''timer_get a'' @
                         ''\<newline>'' @ TAB # ''pck_add a\<newline>'' @ TAB # ''pck_add p\<newline>'' @ TAB # ''pck_add c\<newline>'' @ TAB # ''pck_add b\<newline>'' @ [TAB] @
                         ''pck_end\<newline>endloop\<newline>on_finished:\<newline>cell_off\<newline>\<newline>'';
                  self' = self\<lparr>LSV_pre_body := Some pre_body, LSV_body := Some body\<rparr>
              in case LSV_ini self' of
                   None \<Rightarrow> Inl (AttributeError ''ini'', self')
                 | Some ini \<Rightarrow> Inr (self'\<lparr>LSV_text := ini @ pre_body @ body\<rparr>))))"

subsection \<open>OCP\<close>

record OCP =
  OCP_text :: string
  OCP_ini :: "string option"
  OCP_pre_body :: "string option"
  OCP_body :: "string option"

text \<open>\<^verbatim>\<open>OCP.validate\<close> receives the converted integers and checks nothing.\<close>

definition OCP_validate :: "int \<Rightarrow> int \<Rightarrow> stdout \<Rightarrow> error + stdout" where
  "OCP_validate ttot dt out = (let info = Info_init in Inr (out @ [''All the parameters are valid'']))"

definition OCP_init ::
  "real \<Rightarrow> real \<Rightarrow> string \<Rightarrow> string \<Rightarrow> string \<Rightarrow> string option \<Rightarrow> stdout \<Rightarrow>
   (error \<times> OCP) + (OCP \<times> stdout)" where
  "OCP_init ttot dt folder fileName header path_lib out =
     (let dt_ms = py_int (dt * 1000);
          ttot_ms = py_int (ttot * 1000);
          self = \<lparr>OCP_text = '''', OCP_ini = None, OCP_pre_body = None, OCP_body = None\<rparr>
      in case OCP_validate ttot_ms dt_ms out of
           Inl e \<Rightarrow> Inl (e, self)
         | Inr out' \<Rightarrow>
            (let ini = ''e\<newline>var p\<newline>var a\<newline>'';
                 pre_body = ''set_pgstat_mode 4\<newline>cell_off\<newline>timer_start\<newline>'';
                 body = ''meas_loop_ocp p '' @ str_int dt_ms @ ''m '' @ str_int ttot_ms @ ''m '' @
                        ''\<newline>'' @ TAB # ''pck_start\<newline>'' @ TAB # ''timer_get a\<newline>'' @ TAB # ''pck_add a\<newline>'' @ TAB # ''pck_add p'' @
                        ''\<newline>'' @ TAB # ''pck_end\<newline>endloop\<newline>on_finished:\<newline>cell_off\<newline>\<newline>''
             in Inr (self\<lparr>OCP_ini := Some ini, OCP_pre_body := Some pre_body, OCP_body := Some body,
                          OCP_text := ini @ pre_body @ body\<rparr>, out')))"

subsection \<open>The four technique classes as one type\<close>

text \<open>
  A technique object of this module, with its class. \<^verbatim>\<open>tech.text\<close> reads the attribute
  of whichever class the object has, and \<^verbatim>\<open>tech.bipot(E, sens)\<close> calls that class's
  method; \<^verbatim>\<open>OCP\<close> has no method \<^verbatim>\<open>bipot\<close>.
\<close>

datatype pico = PicoCV CV | PicoCA CA | PicoLSV LSV | PicoOCP OCP

fun pico_text :: "pico \<Rightarrow> string" where
  "pico_text (PicoCV t) = CV_text t"
| "pico_text (PicoCA t) = CA_text t"
| "pico_text (PicoLSV t) = LSV_text t"
| "pico_text (PicoOCP t) = OCP_text t"

fun pico_bipot :: "pico \<Rightarrow> real \<Rightarrow> real \<Rightarrow> (error \<times> pico) + pico" where
  "pico_bipot (PicoCV t) E sens =
     (case CV_bipot t E sens of Inl (e, t') \<Rightarrow> Inl (e, PicoCV t') | Inr t' \<Rightarrow> Inr (PicoCV t'))"
| "pico_bipot (PicoCA t) E sens =
     (case CA_bipot t E sens of Inl (e, t') \<Rightarrow> Inl (e, PicoCA t') | Inr t' \<Rightarrow> Inr (PicoCA t'))"
| "pico_bipot (PicoLSV t) E sens =
     (case LSV_bipot t E sens of Inl (e, t') \<Rightarrow> Inl (e, PicoLSV t') | Inr t' \<Rightarrow> Inr (PicoLSV t'))"
| "pico_bipot (PicoOCP t) E sens = Inl (AttributeError ''bipot'', PicoOCP t)"

section \<open>potentiostat: the technique dispatcher\<close>

definition AVAILABLE_MODELS :: "string list" where
  "AVAILABLE_MODELS = [''chi1205b'', ''chi1242b'', ''chi601e'', ''chi620e'', ''chi760e'', ''emstatpico'']"

definition BIPOT_TECHNIQUES :: "string list" where
  "BIPOT_TECHNIQUES = [''CV'', ''CA'', ''IT'', ''LSV'', ''NPV'']"

text \<open>
  \<^verbatim>\<open>SetupInstrument\<close>: the attributes \<^verbatim>\<open>folder\<close>, \<^verbatim>\<open>model_pstat\<close>, \<^verbatim>\<open>path_lib\<close> and \<^verbatim>\<open>port_\<close>.
  The model and the port default to \<^verbatim>\<open>None\<close>.
\<close>

record SetupInstrument =
  instr_folder :: string
  instr_model_pstat :: "string option"
  instr_path_lib :: string
  instr_port :: "string option"

text \<open>
  A \<^verbatim>\<open>Technique\<close> object is modelled by its attribute dictionary: an attribute exists once
  it has been assigned, and reading one that does not exist raises \<^verbatim>\<open>AttributeError\<close>.
  (The classes define methods only, so no data attribute is found on the class.)
  \<open>'t\<close> is the type of the technique objects of the instrument modules, held in
  \<^verbatim>\<open>self.tech\<close>.
\<close>

datatype 't pyval = PNone | PBool bool | PStr string | PList "'t pyval list" | PObj 't

type_synonym 't pyobj = "string \<Rightarrow> 't pyval option"

definition new_instance :: "'t pyobj" where
  "new_instance = Map.empty"

definition getattr :: "'t pyobj \<Rightarrow> string \<Rightarrow> error + 't pyval" where
  "getattr self name = (case self name of None \<Rightarrow> Inl (AttributeError name) | Some v \<Rightarrow> Inr v)"

definition str_or_None :: "string option \<Rightarrow> 't pyval" where
  "str_or_None s = (case s of None \<Rightarrow> PNone | Some x \<Rightarrow> PStr x)"

text \<open>Prefix and substring tests on strings.\<close>

fun starts_with :: "string \<Rightarrow> string \<Rightarrow> bool" where
  "starts_with [] s = True"
| "starts_with (p # ps) [] = False"
| "starts_with (p # ps) (c # cs) = (p = c \<and> starts_with ps cs)"

fun contains :: "string \<Rightarrow> string \<Rightarrow> bool" where
  "contains sub [] = (sub = [])"
| "contains sub (c # cs) = (starts_with sub (c # cs) \<or> contains sub cs)"

text \<open>
  \<^verbatim>\<open>sub in x\<close> for a string \<^verbatim>\<open>sub\<close>: a substring test on a string, a membership test on a
  list, a \<^verbatim>\<open>TypeError\<close> on \<^verbatim>\<open>None\<close>, a boolean or an object.
\<close>

definition py_in :: "string \<Rightarrow> 't pyval \<Rightarrow> error + bool" where
  "py_in sub x =
     (case x of PStr s \<Rightarrow> Inr (contains sub s)
      | PList vs \<Rightarrow> Inr (PStr sub \<in> set vs)
      | _ \<Rightarrow> Inl TypeError)"

text \<open>\<^verbatim>\<open>Technique.__init__(self, instrument, text, fileName)\<close>.\<close>

definition Technique_init :: "'t pyobj \<Rightarrow> SetupInstrument \<Rightarrow> string \<Rightarrow> string \<Rightarrow> 't pyobj" where
  "Technique_init self instrument text fileName =
     self(''model_pstat'' \<mapsto> str_or_None (instr_model_pstat instrument),
          ''path_lib'' \<mapsto> PStr (instr_path_lib instrument),
          ''port'' \<mapsto> str_or_None (instr_port instrument),
          ''folder'' \<mapsto> PStr (instr_folder instrument),
          ''fileName'' \<mapsto> PStr fileName,
          ''text'' \<mapsto> PStr text,
          ''header'' \<mapsto> PStr '''',
          ''technique'' \<mapsto> PStr ''Technique'',
          ''bpot'' \<mapsto> PBool False,
          ''tech'' \<mapsto> PNone,
          ''data'' \<mapsto> PList [])"

text \<open>
  \<^verbatim>\<open>Technique.bipot(self, E, sens)\<close>. The method \<^verbatim>\<open>bipot\<close> and the attribute \<^verbatim>\<open>text\<close> of the
  object in \<^verbatim>\<open>self.tech\<close> are the parameters \<open>tech_bipot\<close> and \<open>tech_text\<close>. The result is
  the object and the standard output after the call, or the exception with the object as
  the exception leaves it.
\<close>

definition Technique_bipot ::
  "('t \<Rightarrow> real \<Rightarrow> real \<Rightarrow> (error \<times> 't) + 't) \<Rightarrow> ('t \<Rightarrow> string) \<Rightarrow>
   't pyobj \<Rightarrow> real \<Rightarrow> real \<Rightarrow> stdout \<Rightarrow> (error \<times> 't pyobj) + ('t pyobj \<times> stdout)" where
  "Technique_bipot tech_bipot tech_text self E sens out =
     (case getattr self ''technique'' of
        Inl e \<Rightarrow> Inl (e, self)
      | Inr technique \<Rightarrow>
          if (case technique of PStr s \<Rightarrow> s \<in> set BIPOT_TECHNIQUES | _ \<Rightarrow> False) then
            (case getattr self ''tech'' of
               Inl e \<Rightarrow> Inl (e, self)
             | Inr (PObj t) \<Rightarrow>
                 (case tech_bipot t E sens of
                    Inl (e, t') \<Rightarrow> Inl (e, self(''tech'' \<mapsto> PObj t'))
                  | Inr t' \<Rightarrow>
                      Inr (self(''tech'' \<mapsto> PObj t', ''text'' \<mapsto> PStr (tech_text t'),
                                ''bpot'' \<mapsto> PBool True), out))
             | Inr _ \<Rightarrow> Inl (AttributeError ''bipot'', self))
          else
            (case technique of
               PStr s \<Rightarrow> Inr (self, out @ [s @ '' does not have bipotentiostat mode''])
             | _ \<Rightarrow> Inl (TypeError, self)))"

subsection \<open>The technique classes\<close>

text \<open>
  Each constructor assigns \<^verbatim>\<open>header\<close> and \<^verbatim>\<open>technique\<close>, reads \<^verbatim>\<open>self.model_pstat\<close> to choose
  the instrument module, builds the module's technique object, and only then calls
  \<^verbatim>\<open>Technique.__init__\<close>. The technique parameters (\<^verbatim>\<open>Eini\<close>, \<^verbatim>\<open>Ev1\<close>, ...) are forwarded
  unchanged and are one value \<open>params\<close> here. The constructors of the instrument modules
  are parameters: \<open>ChiCV\<close> stands for \<^verbatim>\<open>chi.ChiCV\<close>, \<open>EmstatpicoCV\<close> for \<^verbatim>\<open>emstatpico.CV\<close>, and so
  on; they return the technique object and the standard output, or raise. No extra keyword
  arguments are passed, and the constant \<^verbatim>\<open>path_lib=''\<close> given to \<^verbatim>\<open>emstatpico.CV\<close> is left to
  \<open>EmstatpicoCV\<close>.
\<close>

definition potentiostat_CV_init ::
  "('p \<Rightarrow> string \<Rightarrow> string \<Rightarrow> 't pyval \<Rightarrow> 't pyval \<Rightarrow> stdout \<Rightarrow> error + 't \<times> stdout) \<Rightarrow>
   ('p \<Rightarrow> 't pyval \<Rightarrow> string \<Rightarrow> string \<Rightarrow> stdout \<Rightarrow> error + 't \<times> stdout) \<Rightarrow>
   ('t \<Rightarrow> string) \<Rightarrow> 't pyobj \<Rightarrow> SetupInstrument \<Rightarrow> 'p \<Rightarrow> string \<Rightarrow> string \<Rightarrow> stdout \<Rightarrow>
   (error \<times> 't pyobj) + ('t pyobj \<times> stdout)" where
  "potentiostat_CV_init ChiCV EmstatpicoCV tech_text self instrument params fileName header out =
     (let self = self(''header'' \<mapsto> PStr header, ''technique'' \<mapsto> PStr ''CV'')
      in case getattr self ''model_pstat'' of
           Inl e \<Rightarrow> Inl (e, self)
         | Inr model \<Rightarrow>
            (case py_in ''chi'' model of
               Inl e \<Rightarrow> Inl (e, self)
             | Inr is_chi \<Rightarrow>
                (case (if is_chi then
                         (case getattr self ''folder'' of
                            Inl e \<Rightarrow> Inl e
                          | Inr folder \<Rightarrow> ChiCV params fileName header folder model out)
                       else if model = PStr ''emstatpico'' then
                         (case getattr self ''folder'' of
                            Inl e \<Rightarrow> Inl e
                          | Inr folder \<Rightarrow> EmstatpicoCV params folder fileName header out)
                       else
                         (case model of
                            PStr m \<Rightarrow> Inl (PyException (''Potentiostat model '' @ m @ '' does not have CV.''))
                          | _ \<Rightarrow> Inl TypeError)) of
                   Inl e \<Rightarrow> Inl (e, self)
                 | Inr (t, out') \<Rightarrow>
                     Inr (Technique_init (self(''tech'' \<mapsto> PObj t)) instrument (tech_text t) fileName, out'))))"

definition potentiostat_LSV_init ::
  "('p \<Rightarrow> string \<Rightarrow> 't pyval \<Rightarrow> 't pyval \<Rightarrow> stdout \<Rightarrow> error + 't \<times> stdout) \<Rightarrow>
   ('p \<Rightarrow> 't pyval \<Rightarrow> string \<Rightarrow> string \<Rightarrow> stdout \<Rightarrow> error + 't \<times> stdout) \<Rightarrow>
   ('t \<Rightarrow> string) \<Rightarrow> 't pyobj \<Rightarrow> SetupInstrument \<Rightarrow> 'p \<Rightarrow> string \<Rightarrow> string \<Rightarrow> stdout \<Rightarrow>
   (error \<times> 't pyobj) + ('t pyobj \<times> stdout)" where
  "potentiostat_LSV_init ChiLSV EmstatpicoLSV tech_text self instrument params fileName header out =
     (let self = self(''header'' \<mapsto> PStr header, ''technique'' \<mapsto> PStr ''LSV'')
      in case getattr self ''model_pstat'' of
           Inl e \<Rightarrow> Inl (e, self)
         | Inr model \<Rightarrow>
            (case py_in ''chi'' model of
               Inl e \<Rightarrow> Inl (e, self)
             | Inr is_chi \<Rightarrow>
                (case (if is_chi then
                         (case getattr self ''folder'' of
                            Inl e \<Rightarrow> Inl e
                          | Inr folder \<Rightarrow> ChiLSV params fileName folder model out)
                       else if model = PStr ''emstatpico'' then
                         (case getattr self ''folder'' of
                            Inl e \<Rightarrow> Inl e
                          | Inr folder \<Rightarrow> EmstatpicoLSV params folder fileName header out)
                       else
                         (case model of
                            PStr m \<Rightarrow> Inl (PyException (''Potentiostat model '' @ m @ '' does not have LSV.''))
                          | _ \<Rightarrow> Inl TypeError)) of
                   Inl e \<Rightarrow> Inl (e, self)
                 | Inr (t, out') \<Rightarrow>
                     Inr (Technique_init (self(''tech'' \<mapsto> PObj t)) instrument (tech_text t) fileName, out'))))"

definition potentiostat_IT_init ::
  "('p \<Rightarrow> string \<Rightarrow> 't pyval \<Rightarrow> 't pyval \<Rightarrow> stdout \<Rightarrow> error + 't \<times> stdout) \<Rightarrow>
   ('p \<Rightarrow> 't pyval \<Rightarrow> string \<Rightarrow> string \<Rightarrow> stdout \<Rightarrow> error + 't \<times> stdout) \<Rightarrow>
   ('t \<Rightarrow> string) \<Rightarrow> 't pyobj \<Rightarrow> SetupInstrument \<Rightarrow> 'p \<Rightarrow> string \<Rightarrow> string \<Rightarrow> stdout \<Rightarrow>
   (error \<times> 't pyobj) + ('t pyobj \<times> stdout)" where
  "potentiostat_IT_init ChiIT EmstatpicoIT tech_text self instrument params fileName header out =
     (let self = self(''header'' \<mapsto> PStr header, ''technique'' \<mapsto> PStr ''IT'')
      in case getattr self ''model_pstat'' of
           Inl e \<Rightarrow> Inl (e, self)
         | Inr model \<Rightarrow>
            (case py_in ''chi'' model of
               Inl e \<Rightarrow> Inl (e, self)
             | Inr is_chi \<Rightarrow>
                (case (if is_chi then
                         (case getattr self ''folder'' of
                            Inl e \<Rightarrow> Inl e
                          | Inr folder \<Rightarrow> ChiIT params fileName folder model out)
                       else if model = PStr ''emstatpico'' then
                         (case getattr self ''folder'' of
                            Inl e \<Rightarrow> Inl e
                          | Inr folder \<Rightarrow> EmstatpicoIT params folder fileName header out)
                       else
                         (case model of
                            PStr m \<Rightarrow> Inl (PyException (''Potentiostat model '' @ m @ '' does not have IT.''))
                          | _ \<Rightarrow> Inl TypeError)) of
                   Inl e \<Rightarrow> Inl (e, self)
                 | Inr (t, out') \<Rightarrow>
                     Inr (Technique_init (self(''tech'' \<mapsto> PObj t)) instrument (tech_text t) fileName, out'))))"

text \<open>The \<^verbatim>\<open>CA\<close> class has no emstatpico branch, and its message names \<^verbatim>\<open>IT\<close>.\<close>

definition potentiostat_CA_init ::
  "('p \<Rightarrow> string \<Rightarrow> string \<Rightarrow> 't pyval \<Rightarrow> 't pyval \<Rightarrow> stdout \<Rightarrow> error + 't \<times> stdout) \<Rightarrow>
   ('t \<Rightarrow> string) \<Rightarrow> 't pyobj \<Rightarrow> SetupInstrument \<Rightarrow> 'p \<Rightarrow> string \<Rightarrow> string \<Rightarrow> stdout \<Rightarrow>
   (error \<times> 't pyobj) + ('t pyobj \<times> stdout)" where
  "potentiostat_CA_init ChiCA tech_text self instrument params fileName header out =
     (let self = self(''header'' \<mapsto> PStr header, ''technique'' \<mapsto> PStr ''CA'')
      in case getattr self ''model_pstat'' of
           Inl e \<Rightarrow> Inl (e, self)
         | Inr model \<Rightarrow>
            (case py_in ''chi'' model of
               Inl e \<Rightarrow> Inl (e, self)
             | Inr is_chi \<Rightarrow>
                (case (if is_chi then
                         (case getattr self ''folder'' of
                            Inl e \<Rightarrow> Inl e
                          | Inr folder \<Rightarrow> ChiCA params fileName header folder model out)
                       else
                         (case model of
                            PStr m \<Rightarrow> Inl (PyException (''Potentiostat model '' @ m @ '' does not have IT.''))
                          | _ \<Rightarrow> Inl TypeError)) of
                   Inl e \<Rightarrow> Inl (e, self)
                 | Inr (t, out') \<Rightarrow>
                     Inr (Technique_init (self(''tech'' \<mapsto> PObj t)) instrument (tech_text t) fileName, out'))))"

definition potentiostat_OCP_init ::
  "('p \<Rightarrow> string \<Rightarrow> string \<Rightarrow> 't pyval \<Rightarrow> 't pyval \<Rightarrow> stdout \<Rightarrow> error + 't \<times> stdout) \<Rightarrow>
   ('p \<Rightarrow> 't pyval \<Rightarrow> string \<Rightarrow> string \<Rightarrow> stdout \<Rightarrow> error + 't \<times> stdout) \<Rightarrow>
   ('t \<Rightarrow> string) \<Rightarrow> 't pyobj \<Rightarrow> SetupInstrument \<Rightarrow> 'p \<Rightarrow> string \<Rightarrow> string \<Rightarrow> stdout \<Rightarrow>
   (error \<times> 't pyobj) + ('t pyobj \<times> stdout)" where
  "potentiostat_OCP_init ChiOCP EmstatpicoOCP tech_text self instrument params fileName header out =
     (let self = self(''header'' \<mapsto> PStr header, ''technique'' \<mapsto> PStr ''OCP'')
      in case getattr self ''model_pstat'' of
           Inl e \<Rightarrow> Inl (e, self)
         | Inr model \<Rightarrow>
            (case py_in ''chi'' model of
               Inl e \<Rightarrow> Inl (e, self)
             | Inr is_chi \<Rightarrow>
                (case (if is_chi then
                         (case getattr self ''folder'' of
                            Inl e \<Rightarrow> Inl e
                          | Inr folder \<Rightarrow> ChiOCP params fileName header folder model out)
                       else if model = PStr ''emstatpico'' then
                         (case getattr self ''folder'' of
                            Inl e \<Rightarrow> Inl e
                          | Inr folder \<Rightarrow> EmstatpicoOCP params folder fileName header out)
                       else
                         (case model of
                            PStr m \<Rightarrow> Inl (PyException (''Potentiostat model '' @ m @ '' does not have OCP.''))
                          | _ \<Rightarrow> Inl TypeError)) of
                   Inl e \<Rightarrow> Inl (e, self)
                 | Inr (t, out') \<Rightarrow>
                     Inr (Technique_init (self(''tech'' \<mapsto> PObj t)) instrument (tech_text t) fileName, out'))))"

text \<open>\<^verbatim>\<open>NPV\<close> does not assign \<^verbatim>\<open>header\<close>.\<close>

definition potentiostat_NPV_init ::
  "('p \<Rightarrow> string \<Rightarrow> string \<Rightarrow> 't pyval \<Rightarrow> 't pyval \<Rightarrow> stdout \<Rightarrow> error + 't \<times> stdout) \<Rightarrow>
   ('t \<Rightarrow> string) \<Rightarrow> 't pyobj \<Rightarrow> SetupInstrument \<Rightarrow> 'p \<Rightarrow> string \<Rightarrow> string \<Rightarrow> stdout \<Rightarrow>
   (error \<times> 't pyobj) + ('t pyobj \<times> stdout)" where
  "potentiostat_NPV_init ChiNPV tech_text self instrument params fileName header out =
     (let self = self(''technique'' \<mapsto> PStr ''NPV'')
      in case getattr self ''model_pstat'' of
           Inl e \<Rightarrow> Inl (e, self)
         | Inr model \<Rightarrow>
            (case py_in ''chi'' model of
               Inl e \<Rightarrow> Inl (e, self)
             | Inr is_chi \<Rightarrow>
                (case (if is_chi then
                         (case getattr self ''folder'' of
                            Inl e \<Rightarrow> Inl e
                          | Inr folder \<Rightarrow> ChiNPV params fileName header folder model out)
                       else
                         (case model of
                            PStr m \<Rightarrow> Inl (PyException (''Potentiostat model '' @ m @ '' does not have NPV.''))
                          | _ \<Rightarrow> Inl TypeError)) of
                   Inl e \<Rightarrow> Inl (e, self)
                 | Inr (t, out') \<Rightarrow>
                     Inr (Technique_init (self(''tech'' \<mapsto> PObj t)) instrument (tech_text t) fileName, out'))))"

definition potentiostat_EIS_init ::
  "('p \<Rightarrow> string \<Rightarrow> string \<Rightarrow> 't pyval \<Rightarrow> 't pyval \<Rightarrow> stdout \<Rightarrow> error + 't \<times> stdout) \<Rightarrow>
   ('t \<Rightarrow> string) \<Rightarrow> 't pyobj \<Rightarrow> SetupInstrument \<Rightarrow> 'p \<Rightarrow> string \<Rightarrow> string \<Rightarrow> stdout \<Rightarrow>
   (error \<times> 't pyobj) + ('t pyobj \<times> stdout)" where
  "potentiostat_EIS_init ChiEIS tech_text self instrument params fileName header out =
     (let self = self(''header'' \<mapsto> PStr header, ''technique'' \<mapsto> PStr ''EIS'')
      in case getattr self ''model_pstat'' of
           Inl e \<Rightarrow> Inl (e, self)
         | Inr model \<Rightarrow>
            (case py_in ''chi'' model of
               Inl e \<Rightarrow> Inl (e, self)
             | Inr is_chi \<Rightarrow>
                (case (if is_chi then
                         (case getattr self ''folder'' of
                            Inl e \<Rightarrow> Inl e
                          | Inr folder \<Rightarrow> ChiEIS params fileName header folder model out)
                       else
                         (case model of
                            PStr m \<Rightarrow> Inl (PyException (''Potentiostat model '' @ m @ '' does not have EIS.''))
                          | _ \<Rightarrow> Inl TypeError)) of
                   Inl e \<Rightarrow> Inl (e, self)
                 | Inr (t, out') \<Rightarrow>
                     Inr (Technique_init (self(''tech'' \<mapsto> PObj t)) instrument (tech_text t) fileName, out'))))"

section \<open>Reading a generated program\<close>

text \<open>
  The vocabulary in which the properties of the program text are stated: the lines of a
  program, the words of the first line that starts with a keyword, and the literal inside
  \<^verbatim>\<open>nscans(...)\<close> on the sweep-loop line.
\<close>

fun split_on :: "char \<Rightarrow> string \<Rightarrow> string list" where
  "split_on c [] = [[]]"
| "split_on c (x # xs) =
     (if x = c then [] # split_on c xs
      else (case split_on c xs of [] \<Rightarrow> [[x]] | w # ws \<Rightarrow> (x # w) # ws))"

definition script_lines :: "string \<Rightarrow> string list" where
  "script_lines text = split_on CHR ''\<newline>'' text"

definition line_words :: "string \<Rightarrow> string \<Rightarrow> string list option" where
  "line_words kw text = map_option (split_on CHR '' '') (find (starts_with kw) (script_lines text))"

definition nscans_literal :: "string \<Rightarrow> string option" where
  "nscans_literal text =
     (case line_words ''meas_loop_cv'' text of
        None \<Rightarrow> None
      | Some ws \<Rightarrow>
          map_option (\<lambda>w. takeWhile (\<lambda>c. c \<noteq> CHR '')'') (drop 7 w))
            (find (starts_with ''nscans('') ws))"

text \<open>
  The configuration of channel 0 in a preamble: in the single-channel preamble its first
  three lines (mode, autoranging, potential); in the dual-channel preamble the three lines
  that follow \<^verbatim>\<open>set_pgstat_chan 0\<close>.
\<close>

definition single_channel_config :: "string \<Rightarrow> string list" where
  "single_channel_config pre_body = take 3 (script_lines pre_body)"

definition channel0_config :: "string \<Rightarrow> string list" where
  "channel0_config pre_body =
     take 3 (drop 1 (dropWhile (\<lambda>l. l \<noteq> ''set_pgstat_chan 0'') (script_lines pre_body)))"


section \<open>Auxiliary facts\<close>

subsection \<open>The characters of a rendered integer\<close>

lemma digit_char_in: "n < 10 \<Longrightarrow> digit_char n \<in> set ''0123456789''"
proof -
  assume "n < 10"
  then have "n \<in> {0,1,2,3,4,5,6,7,8,9}" by auto
  then show ?thesis unfolding digit_char_def by auto
qed

lemma str_nat_chars: "set (str_nat n) \<subseteq> set ''0123456789''"
proof (induction n rule: str_nat.induct)
  case (1 n)
  show ?case
  proof (cases "n < 10")
    case True
    then show ?thesis using digit_char_in [of n] by (subst str_nat.simps) simp
  next
    case False
    have "n mod 10 < 10" by simp
    then have "digit_char (n mod 10) \<in> set ''0123456789''" by (rule digit_char_in)
    with False 1 show ?thesis by (subst str_nat.simps) simp
  qed
qed

lemma str_nat_nonempty: "str_nat n \<noteq> []"
  by (subst str_nat.simps) simp

lemma str_int_chars: "set (str_int i) \<subseteq> set ''-0123456789''"
proof (cases "i < 0")
  case True
  have "set (str_nat (nat (- i))) \<subseteq> set ''-0123456789''"
    using str_nat_chars [of "nat (- i)"] by (simp add: subset_insertI2)
  with True show ?thesis by (simp add: str_int_def)
next
  case False
  have "set (str_nat (nat i)) \<subseteq> set ''-0123456789''"
    using str_nat_chars [of "nat i"] by (simp add: subset_insertI2)
  with False show ?thesis by (simp add: str_int_def)
qed

lemma str_int_nonempty: "str_int i \<noteq> []"
  by (simp add: str_int_def str_nat_nonempty)

lemma str_int_no_char: "c \<notin> set ''-0123456789'' \<Longrightarrow> c \<notin> set (str_int i)"
  using str_int_chars [of i] by blast

subsection \<open>Splitting text that contains rendered integers\<close>

lemma split_on_nonempty: "split_on c ys \<noteq> []"
  by (induction ys) (auto split: list.splits)

lemma split_on_append:
  "c \<notin> set xs \<Longrightarrow>
   split_on c (xs @ ys) = (case split_on c ys of [] \<Rightarrow> [xs] | w # ws \<Rightarrow> (xs @ w) # ws)"
proof (induction xs)
  case Nil
  then show ?case using split_on_nonempty [of c ys] by (cases "split_on c ys") simp_all
next
  case (Cons x xs)
  then show ?case by (cases "split_on c ys") auto
qed

lemma split_on_str_int [simp]:
  "c \<notin> set ''-0123456789'' \<Longrightarrow>
   split_on c (str_int i @ ys) =
     (case split_on c ys of [] \<Rightarrow> [str_int i] | w # ws \<Rightarrow> (str_int i @ w) # ws)"
  by (rule split_on_append) (rule str_int_no_char)

lemma starts_with_str_int [simp]:
  "p \<notin> set ''-0123456789'' \<Longrightarrow> starts_with (p # ps) (str_int i @ r) = False"
proof -
  assume p: "p \<notin> set ''-0123456789''"
  obtain c cs where eq: "str_int i = c # cs"
    using str_int_nonempty [of i] by (cases "str_int i") auto
  then have "c \<in> set (str_int i)" by simp
  then have "c \<noteq> p" using str_int_no_char [OF p, of i] by auto
  then show ?thesis by (simp add: eq)
qed

lemma takeWhile_str_int [simp]:
  "takeWhile (\<lambda>c. c \<noteq> CHR '')'') (str_int i @ CHR '')'' # r) = str_int i"
proof -
  have "\<forall>c \<in> set (str_int i). c \<noteq> CHR '')''"
    using str_int_no_char [of "CHR '')''" i] by auto
  then show ?thesis by simp
qed

subsection \<open>What the constructors return\<close>

lemma CV_validate_Inr:
  "CV_validate Eini Ev1 Ev2 Efin sr dE nSweeps sens out = Inr out' \<longleftrightarrow>
     (- 1.7 \<le> Eini \<and> Eini \<le> 2 \<and> - 1.7 \<le> Ev1 \<and> Ev1 \<le> 2 \<and> - 1.7 \<le> Ev2 \<and> Ev2 \<le> 2 \<and>
      - 1.7 \<le> Efin \<and> Efin \<le> 2) \<and> out' = out @ [''All the parameters are valid'']"
  by (auto simp: CV_validate_def limits_def Info_init_def Let_def)

lemma CV_init_Inr:
  assumes "CV_init Eini Ev1 Ev2 Efin sr dE nSweeps sens folder fileName header path_lib qt resistance out = Inr (self, out')"
  shows "CV_Eini self = py_int (Eini * 1000)" and "CV_Ev1 self = py_int (Ev1 * 1000)"
    and "CV_Ev2 self = py_int (Ev2 * 1000)" and "CV_Efin self = py_int (Efin * 1000)"
    and "CV_sr self = py_int (sr * 1000)" and "CV_dE self = py_int (dE * 1000)"
    and "CV_nSweeps self = nSweeps"
    and "CV_ini self = Some ''e\<newline>var c\<newline>var p\<newline>var a\<newline>''"
    and "CV_pre_body self =
           Some (''set_pgstat_mode 4\<newline>set_autoranging ba 100n 5m\<newline>set_e '' @
                 str_int (py_int (Eini * 1000)) @ ''m\<newline>cell_on\<newline>wait 2\<newline>timer_start'')"
    and "CV_text self =
           ''e\<newline>var c\<newline>var p\<newline>var a\<newline>'' @
           (''set_pgstat_mode 4\<newline>set_autoranging ba 100n 5m\<newline>set_e '' @
            str_int (py_int (Eini * 1000)) @ ''m\<newline>cell_on\<newline>wait 2\<newline>timer_start'') @
           (''\<newline>meas_loop_cv p c '' @ str_int (py_int (Eini * 1000)) @ ''m '' @
            str_int (py_int (Ev1 * 1000)) @ ''m '' @ str_int (py_int (Ev2 * 1000)) @ ''m '' @
            str_int (py_int (dE * 1000)) @ ''m '' @ str_int (py_int (sr * 1000)) @
            ''m nscans('' @ str_int (nSweeps - 1) @ '')\<newline>'' @ TAB # ''pck_start\<newline>'' @ TAB #
            ''timer_get a\<newline>'' @ TAB # ''pck_add a\<newline>'' @ TAB # ''pck_add p\<newline>'' @ TAB #
            ''pck_add c\<newline>'' @ TAB # ''pck_end\<newline>endloop\<newline>on_finished:\<newline>cell_off\<newline>\<newline>'')"
  using assms
  by (auto simp: CV_init_def Let_def split: sum.splits)

lemma CV_init_succeeds:
  assumes "- 1.7 \<le> Eini" "Eini \<le> 2" "- 1.7 \<le> Ev1" "Ev1 \<le> 2" "- 1.7 \<le> Ev2" "Ev2 \<le> 2"
    "- 1.7 \<le> Efin" "Efin \<le> 2"
  shows "\<exists>self. CV_init Eini Ev1 Ev2 Efin sr dE nSweeps sens folder fileName header path_lib qt resistance out =
            Inr (self, out @ [''All the parameters are valid''])"
proof -
  have "CV_validate Eini Ev1 Ev2 Efin sr dE nSweeps sens out = Inr (out @ [''All the parameters are valid''])"
    using assms by (simp add: CV_validate_Inr)
  then show ?thesis by (simp add: CV_init_def Let_def)
qed

lemma CV_bipot_Inr:
  assumes "CV_ini self = Some ini" and "- 1.7 \<le> E" and "E \<le> 2"
  shows "CV_bipot self E sens =
    Inr (self\<lparr>CV_pre_body :=
                 Some (''var b\<newline>set_pgstat_chan 1\<newline>set_pgstat_mode 5\<newline>set_poly_we_mode 0\<newline>set_e '' @
                       str_int (py_int (E * 1000)) @
                       ''m\<newline>set_autoranging ba 100n 5m\<newline>set_pgstat_chan 0\<newline>set_pgstat_mode 2\<newline>set_autoranging ba 100n 5m\<newline>set_e '' @
                       str_int (CV_Eini self) @ ''m\<newline>timer_start\<newline>cell_on''),
               CV_body :=
                 Some (''\<newline>meas_loop_cv p c '' @ str_int (CV_Eini self) @ ''m '' @
                       str_int (CV_Ev1 self) @ ''m '' @ str_int (CV_Ev2 self) @ ''m '' @
                       str_int (CV_dE self) @ ''m '' @ str_int (CV_sr self) @
                       ''m nscans('' @ str_int (CV_nSweeps self) @ '') poly_we(1 b)\<newline>'' @ TAB #
                       ''pck_start\<newline>'' @ TAB # ''timer_get a\<newline>'' @ TAB # ''pck_add a\<newline>'' @ TAB #
                       ''pck_add p\<newline>'' @ TAB # ''pck_add c\<newline>'' @ TAB # ''pck_add b\<newline>'' @ TAB #
                       ''pck_end\<newline>endloop\<newline>on_finished:\<newline>cell_off\<newline>\<newline>''),
               CV_text :=
                 ini @
                 (''var b\<newline>set_pgstat_chan 1\<newline>set_pgstat_mode 5\<newline>set_poly_we_mode 0\<newline>set_e '' @
                  str_int (py_int (E * 1000)) @
                  ''m\<newline>set_autoranging ba 100n 5m\<newline>set_pgstat_chan 0\<newline>set_pgstat_mode 2\<newline>set_autoranging ba 100n 5m\<newline>set_e '' @
                  str_int (CV_Eini self) @ ''m\<newline>timer_start\<newline>cell_on'') @
                 (''\<newline>meas_loop_cv p c '' @ str_int (CV_Eini self) @ ''m '' @
                  str_int (CV_Ev1 self) @ ''m '' @ str_int (CV_Ev2 self) @ ''m '' @
                  str_int (CV_dE self) @ ''m '' @ str_int (CV_sr self) @
                  ''m nscans('' @ str_int (CV_nSweeps self) @ '') poly_we(1 b)\<newline>'' @ TAB #
                  ''pck_start\<newline>'' @ TAB # ''timer_get a\<newline>'' @ TAB # ''pck_add a\<newline>'' @ TAB #
                  ''pck_add p\<newline>'' @ TAB # ''pck_add c\<newline>'' @ TAB # ''pck_add b\<newline>'' @ TAB #
                  ''pck_end\<newline>endloop\<newline>on_finished:\<newline>cell_off\<newline>\<newline>'')\<rparr>)"
  using assms by (simp add: CV_bipot_def limits_def Info_init_def Let_def)

lemma line_words_cv_text:
  "line_words ''meas_loop_cv''
     (''e\<newline>var c\<newline>var p\<newline>var a\<newline>'' @
      (''set_pgstat_mode 4\<newline>set_autoranging ba 100n 5m\<newline>set_e '' @
       str_int a @ ''m\<newline>cell_on\<newline>wait 2\<newline>timer_start'') @
      (''\<newline>meas_loop_cv p c '' @ str_int a @ ''m '' @
       str_int b @ ''m '' @ str_int c @ ''m '' @
       str_int d @ ''m '' @ str_int e @
       ''m nscans('' @ str_int n @ '')\<newline>'' @ TAB # ''pck_start\<newline>'' @ TAB #
       ''timer_get a\<newline>'' @ TAB # ''pck_add a\<newline>'' @ TAB # ''pck_add p\<newline>'' @ TAB #
       ''pck_add c\<newline>'' @ TAB # ''pck_end\<newline>endloop\<newline>on_finished:\<newline>cell_off\<newline>\<newline>'')) =
    Some [''meas_loop_cv'', ''p'', ''c'', str_int a @ ''m'', str_int b @ ''m'',
          str_int c @ ''m'', str_int d @ ''m'', str_int e @ ''m'',
          ''nscans('' @ str_int n @ '')'']"
  by (simp add: line_words_def script_lines_def)

lemma line_words_cv_bipot_text:
  "line_words ''meas_loop_cv''
     (''e\<newline>var c\<newline>var p\<newline>var a\<newline>'' @
                 (''var b\<newline>set_pgstat_chan 1\<newline>set_pgstat_mode 5\<newline>set_poly_we_mode 0\<newline>set_e '' @
                  str_int x @
                  ''m\<newline>set_autoranging ba 100n 5m\<newline>set_pgstat_chan 0\<newline>set_pgstat_mode 2\<newline>set_autoranging ba 100n 5m\<newline>set_e '' @
                  str_int a @ ''m\<newline>timer_start\<newline>cell_on'') @
                 (''\<newline>meas_loop_cv p c '' @ str_int a @ ''m '' @
                  str_int b @ ''m '' @ str_int c @ ''m '' @
                  str_int d @ ''m '' @ str_int e @
                  ''m nscans('' @ str_int n @ '') poly_we(1 b)\<newline>'' @ TAB #
                  ''pck_start\<newline>'' @ TAB # ''timer_get a\<newline>'' @ TAB # ''pck_add a\<newline>'' @ TAB #
                  ''pck_add p\<newline>'' @ TAB # ''pck_add c\<newline>'' @ TAB # ''pck_add b\<newline>'' @ TAB #
                  ''pck_end\<newline>endloop\<newline>on_finished:\<newline>cell_off\<newline>\<newline>'')) =
    Some [''meas_loop_cv'', ''p'', ''c'', str_int a @ ''m'', str_int b @ ''m'',
          str_int c @ ''m'', str_int d @ ''m'', str_int e @ ''m'',
          ''nscans('' @ str_int n @ '')'', ''poly_we(1'', ''b)'']"
  by (simp add: line_words_def script_lines_def)

lemma nscans_of_words:
  "line_words ''meas_loop_cv'' text =
     Some (''meas_loop_cv'' # ''p'' # ''c'' # (str_int a @ ''m'') # (str_int b @ ''m'') #
           (str_int c @ ''m'') # (str_int d @ ''m'') # (str_int e @ ''m'') #
           (''nscans('' @ str_int n @ '')'') # ws) \<Longrightarrow>
   nscans_literal text = Some (str_int n)"
  by (simp add: nscans_literal_def)

lemma CV_bipot_Inr_range:
  "CV_bipot self E sens = Inr self' \<Longrightarrow> - 1.7 \<le> E \<and> E \<le> 2"
  by (auto simp: CV_bipot_def limits_def Info_init_def Let_def split: if_splits option.splits)










lemma OCP_init_succeeds:
  "\<exists>self. OCP_init ttot dt folder fileName header path_lib out =
            Inr (self, out @ [''All the parameters are valid''])"
  by (simp add: OCP_init_def OCP_validate_def Let_def)


lemma script_lines_cv_pre_body:
  "script_lines (''set_pgstat_mode 4\<newline>set_autoranging ba 100n 5m\<newline>set_e '' @
                 str_int a @ ''m\<newline>cell_on\<newline>wait 2\<newline>timer_start'') =
     [''set_pgstat_mode 4'', ''set_autoranging ba 100n 5m'', ''set_e '' @ str_int a @ ''m'',
      ''cell_on'', ''wait 2'', ''timer_start'']"
  by (simp add: script_lines_def)

lemma script_lines_cv_bipot_pre_body:
  "script_lines (''var b\<newline>set_pgstat_chan 1\<newline>set_pgstat_mode 5\<newline>set_poly_we_mode 0\<newline>set_e '' @
                 str_int x @
                 ''m\<newline>set_autoranging ba 100n 5m\<newline>set_pgstat_chan 0\<newline>set_pgstat_mode 2\<newline>set_autoranging ba 100n 5m\<newline>set_e '' @
                 str_int a @ ''m\<newline>timer_start\<newline>cell_on'') =
     [''var b'', ''set_pgstat_chan 1'', ''set_pgstat_mode 5'', ''set_poly_we_mode 0'',
      ''set_e '' @ str_int x @ ''m'', ''set_autoranging ba 100n 5m'',
      ''set_pgstat_chan 0'', ''set_pgstat_mode 2'', ''set_autoranging ba 100n 5m'',
      ''set_e '' @ str_int a @ ''m'', ''timer_start'', ''cell_on'']"
  by (simp add: script_lines_def)

section \<open>Validation of potentials\<close>

text \<open>
  Claim C2. \<^verbatim>\<open>Info.limits\<close> raises its out-of-range exception exactly when the value lies
  strictly outside \<open>[low, high]\<close>; the bounds themselves are accepted, so a potential equal
  to \<open>E_min\<close> or to \<open>E_max\<close> passes and one below \<open>E_min\<close> is rejected. \<^verbatim>\<open>CV.validate\<close>
  applies the check to the four potentials \<open>Eini\<close>, \<open>Ev1\<close>, \<open>Ev2\<close>, \<open>Efin\<close>, so it raises
  exactly when one of them is outside \<open>[E_min, E_max]\<close>.
\<close>

theorem limits_raises_iff_outside:
  "((\<exists>e. limits val low high label units = Inl e) = (val < low \<or> high < val))
   \<and> (limits val low high label units = Inr ()) = (low \<le> val \<and> val \<le> high)
   \<and> (low \<le> high \<longrightarrow> limits low low high label units = Inr () \<and> limits high low high label units = Inr ())
   \<and> limits (E_min Info_init) (E_min Info_init) (E_max Info_init) label units = Inr ()
   \<and> limits (E_max Info_init) (E_min Info_init) (E_max Info_init) label units = Inr ()
   \<and> (val < E_min Info_init \<longrightarrow>
        limits val (E_min Info_init) (E_max Info_init) label units =
          Inl (LimitsException label (E_min Info_init) (E_max Info_init) units val))
   \<and> ((\<exists>e. CV_validate Eini Ev1 Ev2 Efin sr dE nSweeps sens out = Inl e) =
        (\<exists>v \<in> {Eini, Ev1, Ev2, Efin}. v < E_min Info_init \<or> E_max Info_init < v))"
  by (auto simp: limits_def CV_validate_def Info_init_def Let_def split: sum.splits)

theorem limits_raises_iff_outside_witness:
  "(- 1.7 :: real) \<le> 2
   \<and> limits (- 1.7) (- 1.7) 2 ''Eini'' ''V'' = Inr ()
   \<and> (- 1.7 - 0.001 :: real) < E_min Info_init
   \<and> limits (- 1.7 - 0.001) (E_min Info_init) (E_max Info_init) ''Eini'' ''V'' =
       Inl (LimitsException ''Eini'' (E_min Info_init) (E_max Info_init) ''V'' (- 1.7 - 0.001))
   \<and> (\<exists>e. CV_validate (- 1.7 - 0.001) 0.2 (- 0.2) (- 0.2) 0.1 0.001 2 0.000001 [] = Inl e)"
  using limits_raises_iff_outside [of "- 1.7 - 0.001" "- 1.7" 2 "''Eini''" "''V''"
      "- 1.7 - 0.001" "0.2" "- 0.2" "- 0.2" "0.1" "0.001" 2 "0.000001" "[]"]
  by (simp add: Info_init_def)

section \<open>The sweep loop of a cyclic voltammetry program\<close>

text \<open>
  Claim C4. The constructor \<^verbatim>\<open>CV\<close> called with \<open>Eini = -0.2\<close>, \<open>Ev1 = 0.2\<close>, \<open>Ev2 = -0.2\<close>,
  \<open>Efin = -0.2\<close>, \<open>sr = 0.1\<close>, \<open>dE = 0.001\<close> and \<open>nSweeps = 2\<close> returns a program whose loop
  line carries the literals \<open>-200m\<close>, \<open>200m\<close>, \<open>-200m\<close>, \<open>1m\<close>, \<open>100m\<close> and the scan count
  \<open>1\<close>. The whole program text is given as well.
\<close>

theorem CV_scenario_literals:
  "\<exists>self. CV_init (- 0.2) 0.2 (- 0.2) (- 0.2) 0.1 0.001 2 sens folder fileName header path_lib qt resistance out
            = Inr (self, out @ [''All the parameters are valid''])
     \<and> CV_text self =
         ''e\<newline>var c\<newline>var p\<newline>var a\<newline>set_pgstat_mode 4\<newline>set_autoranging ba 100n 5m\<newline>set_e -200m\<newline>cell_on\<newline>wait 2\<newline>timer_start\<newline>meas_loop_cv p c -200m 200m -200m 1m 100m nscans(1)\<newline>'' @
         TAB # ''pck_start\<newline>'' @ TAB # ''timer_get a\<newline>'' @ TAB # ''pck_add a\<newline>'' @ TAB # ''pck_add p\<newline>'' @
         TAB # ''pck_add c\<newline>'' @ TAB # ''pck_end\<newline>endloop\<newline>on_finished:\<newline>cell_off\<newline>\<newline>''
     \<and> line_words ''meas_loop_cv'' (CV_text self) =
         Some [''meas_loop_cv'', ''p'', ''c'', ''-200m'', ''200m'', ''-200m'', ''1m'', ''100m'', ''nscans(1)'']
     \<and> nscans_literal (CV_text self) = Some ''1''"
  by (simp add: CV_init_def CV_validate_def limits_def Info_init_def Let_def py_int_def
      str_int_def str_nat.simps digit_char_def line_words_def script_lines_def nscans_literal_def)

text \<open>
  Claim C1. The scan count written by the constructor is \<open>nSweeps - 1\<close>. The program that
  \<^verbatim>\<open>CV.bipot\<close> writes afterwards carries \<open>nSweeps\<close> itself: the dual-channel loop line was
  copied from the constructor's without the subtraction, so the claim holds for the
  single-channel program and fails for the dual-channel one.
\<close>

theorem CV_bipot_scan_count:
  assumes "CV_init Eini Ev1 Ev2 Efin sr dE nSweeps sens folder fileName header path_lib qt resistance out = Inr (self, out')"
    and "CV_bipot self E sens2 = Inr self'"
  shows "nscans_literal (CV_text self) = Some (str_int (nSweeps - 1))
       \<and> nscans_literal (CV_text self') = Some (str_int nSweeps)"
proof
  show "nscans_literal (CV_text self) = Some (str_int (nSweeps - 1))"
    by (rule nscans_of_words) (simp only: CV_init_Inr(10) [OF assms(1)] line_words_cv_text)
  have range: "- 1.7 \<le> E" "E \<le> 2" using CV_bipot_Inr_range [OF assms(2)] by simp_all
  have "CV_text self' =
     ''e\<newline>var c\<newline>var p\<newline>var a\<newline>'' @
                 (''var b\<newline>set_pgstat_chan 1\<newline>set_pgstat_mode 5\<newline>set_poly_we_mode 0\<newline>set_e '' @
                  str_int (py_int (E * 1000)) @
                  ''m\<newline>set_autoranging ba 100n 5m\<newline>set_pgstat_chan 0\<newline>set_pgstat_mode 2\<newline>set_autoranging ba 100n 5m\<newline>set_e '' @
                  str_int (CV_Eini self) @ ''m\<newline>timer_start\<newline>cell_on'') @
                 (''\<newline>meas_loop_cv p c '' @ str_int (CV_Eini self) @ ''m '' @
                  str_int (CV_Ev1 self) @ ''m '' @ str_int (CV_Ev2 self) @ ''m '' @
                  str_int (CV_dE self) @ ''m '' @ str_int (CV_sr self) @
                  ''m nscans('' @ str_int (CV_nSweeps self) @ '') poly_we(1 b)\<newline>'' @ TAB #
                  ''pck_start\<newline>'' @ TAB # ''timer_get a\<newline>'' @ TAB # ''pck_add a\<newline>'' @ TAB #
                  ''pck_add p\<newline>'' @ TAB # ''pck_add c\<newline>'' @ TAB # ''pck_add b\<newline>'' @ TAB #
                  ''pck_end\<newline>endloop\<newline>on_finished:\<newline>cell_off\<newline>\<newline>'')"
    using assms(2) unfolding CV_bipot_Inr [OF CV_init_Inr(8) [OF assms(1)] range] by auto
  then have "nscans_literal (CV_text self') = Some (str_int (CV_nSweeps self))"
    by (intro nscans_of_words) (simp only: line_words_cv_bipot_text)
  then show "nscans_literal (CV_text self') = Some (str_int nSweeps)"
    by (simp add: CV_init_Inr(7) [OF assms(1)])
qed

theorem CV_bipot_scan_count_witness:
  "\<exists>self out' self'.
      CV_init (- 0.2) 0.2 (- 0.2) (- 0.2) 0.1 0.001 2 0.000001 ''.'' ''CV'' ''CV'' None 2 0 [] = Inr (self, out')
    \<and> CV_bipot self (- 0.2) 0.000001 = Inr self'
    \<and> nscans_literal (CV_text self) = Some ''1''
    \<and> nscans_literal (CV_text self') = Some ''2''"
proof -
  obtain self where h1:
    "CV_init (- 0.2) 0.2 (- 0.2) (- 0.2) 0.1 0.001 2 0.000001 ''.'' ''CV'' ''CV'' None 2 0 [] =
       Inr (self, [] @ [''All the parameters are valid''])"
    using CV_init_succeeds [of "- 0.2" "0.2" "- 0.2" "- 0.2" "0.1" "0.001" 2 "0.000001" "''.''" "''CV''" "''CV''" None 2 0 "[]"]
    by auto
  have h2: "\<exists>self'. CV_bipot self (- 0.2) 0.000001 = Inr self'"
    using CV_bipot_Inr [OF CV_init_Inr(8) [OF h1], of "- 0.2" "0.000001"] by simp
  then obtain self' where h3: "CV_bipot self (- 0.2) 0.000001 = Inr self'" ..
  have "nscans_literal (CV_text self) = Some (str_int (2 - 1))
      \<and> nscans_literal (CV_text self') = Some (str_int 2)"
    by (rule CV_bipot_scan_count [OF h1 h3])
  then have "nscans_literal (CV_text self) = Some ''1'' \<and> nscans_literal (CV_text self') = Some ''2''"
    by (simp add: str_int_def str_nat.simps digit_char_def)
  with h1 h3 show ?thesis by blast
qed

section \<open>The bipotentiostat extension of LSV\<close>

text \<open>
  Claim C6. \<^verbatim>\<open>LSV.bipot\<close> never reaches its validation: whatever the object and the second
  potential, the call raises \<^verbatim>\<open>NameError\<close> for the name \<^verbatim>\<open>info\<close> and leaves the object as it
  was. No dual-channel program is produced for any second potential.
\<close>

theorem LSV_bipot_raises_NameError:
  "LSV_bipot self E sens = Inl (NameError ''info'', self)"
  by (simp add: LSV_bipot_def module_globals_def)

section \<open>The integer literals of the millivolt dialect\<close>




section \<open>Validation precedes generation\<close>



section \<open>Determinism of generation\<close>



section \<open>The preamble of the bipotentiostat extension\<close>

text \<open>
  Claim C8, as stated: the channel-0 instructions of the new preamble (mode, autoranging,
  potential) are those of the original preamble. For the default parameters the original
  preamble sets \<^verbatim>\<open>set_pgstat_mode 4\<close> and the new one sets \<^verbatim>\<open>set_pgstat_mode 2\<close> for channel 0,
  so the two configurations differ.
\<close>

theorem channel0_mode_differs:
  "\<exists>self out' self' pre pre'.
      CV_init (- 0.2) 0.2 (- 0.2) (- 0.2) 0.1 0.001 2 0.000001 ''.'' ''CV'' ''CV'' None 2 0 [] = Inr (self, out')
    \<and> CV_bipot self (- 0.2) 0.000001 = Inr self'
    \<and> CV_pre_body self = Some pre \<and> CV_pre_body self' = Some pre'
    \<and> single_channel_config pre = [''set_pgstat_mode 4'', ''set_autoranging ba 100n 5m'', ''set_e -200m'']
    \<and> channel0_config pre' = [''set_pgstat_mode 2'', ''set_autoranging ba 100n 5m'', ''set_e -200m'']
    \<and> channel0_config pre' \<noteq> single_channel_config pre"
  by (simp add: CV_init_def CV_validate_def CV_bipot_def limits_def Info_init_def Let_def py_int_def
      str_int_def str_nat.simps digit_char_def script_lines_def single_channel_config_def
      channel0_config_def)

text \<open>
  Claim C8, amended: for every \<^verbatim>\<open>CV\<close> object and every second potential within
  \<open>[E_min, E_max]\<close>, \<^verbatim>\<open>CV.bipot\<close> succeeds and its preamble selects channel 1, sets the
  polystat mode (\<^verbatim>\<open>set_pgstat_mode 5\<close>, \<^verbatim>\<open>set_poly_we_mode 0\<close>) with \<^verbatim>\<open>set_e\<close> at the second
  potential, then selects channel 0 with the autoranging and the \<^verbatim>\<open>set_e\<close> at \<open>Eini\<close> of the
  original preamble, and with \<^verbatim>\<open>set_pgstat_mode 2\<close> where the original has mode 4.
\<close>

theorem CV_bipot_preamble:
  assumes "CV_init Eini Ev1 Ev2 Efin sr dE nSweeps sens folder fileName header path_lib qt resistance out = Inr (self, out')"
    and "E_min Info_init \<le> E" and "E \<le> E_max Info_init"
  shows "\<exists>self' pre pre'.
      CV_bipot self E sens2 = Inr self'
    \<and> CV_pre_body self = Some pre \<and> CV_pre_body self' = Some pre'
    \<and> script_lines pre' =
        [''var b'', ''set_pgstat_chan 1'', ''set_pgstat_mode 5'', ''set_poly_we_mode 0'',
         ''set_e '' @ str_int (py_int (E * 1000)) @ ''m'', ''set_autoranging ba 100n 5m'',
         ''set_pgstat_chan 0'', ''set_pgstat_mode 2'', ''set_autoranging ba 100n 5m'',
         ''set_e '' @ str_int (py_int (Eini * 1000)) @ ''m'', ''timer_start'', ''cell_on'']
    \<and> single_channel_config pre =
        [''set_pgstat_mode 4'', ''set_autoranging ba 100n 5m'',
         ''set_e '' @ str_int (py_int (Eini * 1000)) @ ''m'']
    \<and> channel0_config pre' =
        [''set_pgstat_mode 2'', ''set_autoranging ba 100n 5m'',
         ''set_e '' @ str_int (py_int (Eini * 1000)) @ ''m'']"
proof -
  have range: "- 1.7 \<le> E" "E \<le> 2" using assms(2,3) by (simp_all add: Info_init_def)
  let ?pre = "''set_pgstat_mode 4\<newline>set_autoranging ba 100n 5m\<newline>set_e '' @
                 str_int (py_int (Eini * 1000)) @ ''m\<newline>cell_on\<newline>wait 2\<newline>timer_start''"
  let ?pre' = "''var b\<newline>set_pgstat_chan 1\<newline>set_pgstat_mode 5\<newline>set_poly_we_mode 0\<newline>set_e '' @
                 str_int (py_int (E * 1000)) @
                 ''m\<newline>set_autoranging ba 100n 5m\<newline>set_pgstat_chan 0\<newline>set_pgstat_mode 2\<newline>set_autoranging ba 100n 5m\<newline>set_e '' @
                 str_int (py_int (Eini * 1000)) @ ''m\<newline>timer_start\<newline>cell_on''"
  have pre: "CV_pre_body self = Some ?pre" by (rule CV_init_Inr(9) [OF assms(1)])
  obtain self' where b: "CV_bipot self E sens2 = Inr self'" and pre': "CV_pre_body self' = Some ?pre'"
    using CV_bipot_Inr [OF CV_init_Inr(8) [OF assms(1)] range, of sens2]
    by (simp add: CV_init_Inr(1) [OF assms(1)])
  have l1: "script_lines ?pre' =
        [''var b'', ''set_pgstat_chan 1'', ''set_pgstat_mode 5'', ''set_poly_we_mode 0'',
         ''set_e '' @ str_int (py_int (E * 1000)) @ ''m'', ''set_autoranging ba 100n 5m'',
         ''set_pgstat_chan 0'', ''set_pgstat_mode 2'', ''set_autoranging ba 100n 5m'',
         ''set_e '' @ str_int (py_int (Eini * 1000)) @ ''m'', ''timer_start'', ''cell_on'']"
    by (rule script_lines_cv_bipot_pre_body)
  have l2: "single_channel_config ?pre =
        [''set_pgstat_mode 4'', ''set_autoranging ba 100n 5m'',
         ''set_e '' @ str_int (py_int (Eini * 1000)) @ ''m'']"
    unfolding single_channel_config_def script_lines_cv_pre_body by simp
  have l3: "channel0_config ?pre' =
        [''set_pgstat_mode 2'', ''set_autoranging ba 100n 5m'',
         ''set_e '' @ str_int (py_int (Eini * 1000)) @ ''m'']"
    unfolding channel0_config_def script_lines_cv_bipot_pre_body by simp
  from b pre pre' l1 l2 l3 show ?thesis by blast
qed

theorem CV_bipot_preamble_witness:
  "E_min Info_init \<le> - 0.2 \<and> - 0.2 \<le> E_max Info_init
   \<and> (\<exists>self out' self' pre pre'.
      CV_init (- 0.2) 0.2 (- 0.2) (- 0.2) 0.1 0.001 2 0.000001 ''.'' ''CV'' ''CV'' None 2 0 [] = Inr (self, out')
    \<and> CV_bipot self (- 0.2) 0.000001 = Inr self'
    \<and> CV_pre_body self = Some pre \<and> CV_pre_body self' = Some pre'
    \<and> script_lines pre' =
        [''var b'', ''set_pgstat_chan 1'', ''set_pgstat_mode 5'', ''set_poly_we_mode 0'',
         ''set_e -200m'', ''set_autoranging ba 100n 5m'',
         ''set_pgstat_chan 0'', ''set_pgstat_mode 2'', ''set_autoranging ba 100n 5m'',
         ''set_e -200m'', ''timer_start'', ''cell_on''])"
proof -
  have r: "E_min Info_init \<le> - 0.2" "- 0.2 \<le> E_max Info_init" by (simp_all add: Info_init_def)
  obtain self where h1:
    "CV_init (- 0.2) 0.2 (- 0.2) (- 0.2) 0.1 0.001 2 0.000001 ''.'' ''CV'' ''CV'' None 2 0 [] =
       Inr (self, [] @ [''All the parameters are valid''])"
    using CV_init_succeeds [of "- 0.2" "0.2" "- 0.2" "- 0.2" "0.1" "0.001" 2 "0.000001" "''.''" "''CV''" "''CV''" None 2 0 "[]"]
    by auto
  from CV_bipot_preamble [OF h1 r, of "0.000001"] obtain self' pre pre' where
    "CV_bipot self (- 0.2) 0.000001 = Inr self'" "CV_pre_body self = Some pre" "CV_pre_body self' = Some pre'"
    "script_lines pre' =
        [''var b'', ''set_pgstat_chan 1'', ''set_pgstat_mode 5'', ''set_poly_we_mode 0'',
         ''set_e '' @ str_int (py_int (- 0.2 * 1000)) @ ''m'', ''set_autoranging ba 100n 5m'',
         ''set_pgstat_chan 0'', ''set_pgstat_mode 2'', ''set_autoranging ba 100n 5m'',
         ''set_e '' @ str_int (py_int (- 0.2 * 1000)) @ ''m'', ''timer_start'', ''cell_on'']"
    by blast
  then have "CV_bipot self (- 0.2) 0.000001 = Inr self' \<and> CV_pre_body self = Some pre \<and> CV_pre_body self' = Some pre'
    \<and> script_lines pre' =
        [''var b'', ''set_pgstat_chan 1'', ''set_pgstat_mode 5'', ''set_poly_we_mode 0'',
         ''set_e -200m'', ''set_autoranging ba 100n 5m'',
         ''set_pgstat_chan 0'', ''set_pgstat_mode 2'', ''set_autoranging ba 100n 5m'',
         ''set_e -200m'', ''timer_start'', ''cell_on'']"
    by (simp add: py_int_def str_int_def str_nat.simps digit_char_def)
  with h1 r show ?thesis by blast
qed

section \<open>The dispatcher\<close>

text \<open>
  Claim C5. \<^verbatim>\<open>Technique.bipot\<close> on an object whose technique is not in
  \<^verbatim>\<open>BIPOT_TECHNIQUES\<close> returns normally: it prints that the technique does not have
  bipotentiostat mode and leaves every attribute of the object as it was, so the program
  text is not modified and \<^verbatim>\<open>bpot\<close> keeps its value. For an object whose technique is
  \<^verbatim>\<open>OCP\<close>, with the text of an \<^verbatim>\<open>OCP\<close> program and \<^verbatim>\<open>bpot\<close> false, the flag is still false after
  the call.
\<close>

theorem bipot_unsupported_technique:
  assumes "self ''technique'' = Some (PStr t)" and "t \<notin> set BIPOT_TECHNIQUES"
  shows "\<exists>self' out'.
           Technique_bipot tech_bipot tech_text self E sens out = Inr (self', out')
         \<and> self' = self
         \<and> self' ''text'' = self ''text'' \<and> self' ''bpot'' = self ''bpot'' \<and> self' ''tech'' = self ''tech''
         \<and> out' = out @ [t @ '' does not have bipotentiostat mode'']"
  using assms by (simp add: Technique_bipot_def getattr_def)

theorem bipot_unsupported_technique_witness:
  "\<exists>ocp out self self' out'.
      OCP_init 2 0.01 ''.'' ''OCP'' ''OCP'' None [] = Inr (ocp, out)
    \<and> self = (Technique_init new_instance
                 \<lparr>instr_folder = ''.'', instr_model_pstat = Some ''emstatpico'',
                  instr_path_lib = ''.'', instr_port = None\<rparr>
                 (OCP_text ocp) ''OCP'')
               (''header'' \<mapsto> PStr ''OCP'', ''technique'' \<mapsto> PStr ''OCP'', ''tech'' \<mapsto> PObj (PicoOCP ocp))
    \<and> self ''technique'' = Some (PStr ''OCP'') \<and> ''OCP'' \<notin> set BIPOT_TECHNIQUES
    \<and> self ''bpot'' = Some (PBool False) \<and> self ''text'' = Some (PStr (OCP_text ocp))
    \<and> Technique_bipot pico_bipot pico_text self (- 0.2) 0.000001 out = Inr (self', out')
    \<and> self' ''bpot'' = Some (PBool False) \<and> self' ''text'' = Some (PStr (OCP_text ocp))
    \<and> out' = out @ [''OCP does not have bipotentiostat mode'']"
proof -
  obtain ocp where h:
    "OCP_init 2 0.01 ''.'' ''OCP'' ''OCP'' None [] = Inr (ocp, [] @ [''All the parameters are valid''])"
    using OCP_init_succeeds [of 2 "0.01" "''.''" "''OCP''" "''OCP''" None "[]"] by auto
  define self :: "pico pyobj" where
    "self = (Technique_init new_instance
                 \<lparr>instr_folder = ''.'', instr_model_pstat = Some ''emstatpico'',
                  instr_path_lib = ''.'', instr_port = None\<rparr>
                 (OCP_text ocp) ''OCP'')
               (''header'' \<mapsto> PStr ''OCP'', ''technique'' \<mapsto> PStr ''OCP'', ''tech'' \<mapsto> PObj (PicoOCP ocp))"
  have t: "self ''technique'' = Some (PStr ''OCP'')" by (simp add: self_def)
  have n: "''OCP'' \<notin> set BIPOT_TECHNIQUES" by (simp add: BIPOT_TECHNIQUES_def)
  have b: "self ''bpot'' = Some (PBool False)" "self ''text'' = Some (PStr (OCP_text ocp))"
    by (simp_all add: self_def Technique_init_def)
  obtain self' out' where r:
    "Technique_bipot pico_bipot pico_text self (- 0.2) 0.000001 ([] @ [''All the parameters are valid'']) =
       Inr (self', out')"
    "self' ''text'' = self ''text''" "self' ''bpot'' = self ''bpot''"
    "out' = ([] @ [''All the parameters are valid'']) @ [''OCP'' @ '' does not have bipotentiostat mode'']"
    using bipot_unsupported_technique [where self = self and t = "''OCP''", OF t n,
        of pico_bipot pico_text "- 0.2" "0.000001" "[] @ [''All the parameters are valid'']"]
    by blast
  from r(4) have o: "out' = ([] @ [''All the parameters are valid'']) @ [''OCP does not have bipotentiostat mode'']"
    by simp
  from r(2,3) b have b': "self' ''bpot'' = Some (PBool False)" "self' ''text'' = Some (PStr (OCP_text ocp))"
    by simp_all
  from h self_def t n b r(1) b' o show ?thesis by blast
qed

text \<open>
  Claim C10. A technique object built through one of the seven technique classes starts
  with no attribute. The constructor assigns \<^verbatim>\<open>header\<close> and \<^verbatim>\<open>technique\<close> (\<^verbatim>\<open>NPV\<close> only
  \<^verbatim>\<open>technique\<close>) and then reads \<^verbatim>\<open>self.model_pstat\<close>, which only \<^verbatim>\<open>Technique.__init__\<close>, called
  at the end, would assign. So every construction raises \<^verbatim>\<open>AttributeError\<close> for
  \<^verbatim>\<open>model_pstat\<close>, whatever the instrument, the parameters and the instrument modules'
  constructors, none of which is reached.
\<close>

theorem construction_fails_on_model_pstat:
  "potentiostat_CV_init ChiCV EmstatpicoCV tech_text new_instance instrument params_cv fileName header out =
     Inl (AttributeError ''model_pstat'', new_instance(''header'' \<mapsto> PStr header, ''technique'' \<mapsto> PStr ''CV''))
   \<and> potentiostat_LSV_init ChiLSV EmstatpicoLSV tech_text new_instance instrument params_lsv fileName header out =
     Inl (AttributeError ''model_pstat'', new_instance(''header'' \<mapsto> PStr header, ''technique'' \<mapsto> PStr ''LSV''))
   \<and> potentiostat_IT_init ChiIT EmstatpicoIT tech_text new_instance instrument params_it fileName header out =
     Inl (AttributeError ''model_pstat'', new_instance(''header'' \<mapsto> PStr header, ''technique'' \<mapsto> PStr ''IT''))
   \<and> potentiostat_CA_init ChiCA tech_text new_instance instrument params_ca fileName header out =
     Inl (AttributeError ''model_pstat'', new_instance(''header'' \<mapsto> PStr header, ''technique'' \<mapsto> PStr ''CA''))
   \<and> potentiostat_OCP_init ChiOCP EmstatpicoOCP tech_text new_instance instrument params_ocp fileName header out =
     Inl (AttributeError ''model_pstat'', new_instance(''header'' \<mapsto> PStr header, ''technique'' \<mapsto> PStr ''OCP''))
   \<and> potentiostat_NPV_init ChiNPV tech_text new_instance instrument params_npv fileName header out =
     Inl (AttributeError ''model_pstat'', new_instance(''technique'' \<mapsto> PStr ''NPV''))
   \<and> potentiostat_EIS_init ChiEIS tech_text new_instance instrument params_eis fileName header out =
     Inl (AttributeError ''model_pstat'', new_instance(''header'' \<mapsto> PStr header, ''technique'' \<mapsto> PStr ''EIS''))"
  by (simp add: potentiostat_CV_init_def potentiostat_LSV_init_def potentiostat_IT_init_def
      potentiostat_CA_init_def potentiostat_OCP_init_def potentiostat_NPV_init_def
      potentiostat_EIS_init_def getattr_def new_instance_def Let_def)

end
